theory Spec2Isabelle
  imports Main
begin

section \<open>VORTEX: retry-wrapped tasks and the primary/fallback flow\<close>

text \<open>
  A shallow embedding of \<^verbatim>\<open>src/Vortex.py\<close>: the decorator \<^verbatim>\<open>vortex_task\<close> (lines 39-48)
  and the coroutine \<^verbatim>\<open>vortex_flow\<close> (lines 53-81).

  \<^item> A Python exception is a value carrying the name of its class and what \<^verbatim>\<open>str()\<close> makes
    of it. The code asks two things of an exception: whether an \<^verbatim>\<open>except Exception\<close> clause
    catches it, and, in the f-strings of its log lines, its string form.
  \<^item> Awaiting a coroutine either returns a value or raises, and may change the world
    (whatever the operation reads and writes) on the way: a coroutine is a function from
    the world before to the outcome and the world after, with \<open>Inl\<close> for a raise.
  \<^item> The calls to the process-wide \<^verbatim>\<open>logger\<close> are modelled as far as they bear on the
    control flow. The f-strings of lines 67 and 76 format the exception just caught, which
    calls its \<^verbatim>\<open>__str__\<close>, and that may raise: the model has this step. The other log
    lines are constants, or format the parameter \<^verbatim>\<open>context\<close> only, a \<^verbatim>\<open>str\<close> by its
    annotation, whose formatting cannot raise; with the logging set up as in the source
    (\<^verbatim>\<open>basicConfig\<close>, one stream handler) emitting a record does not raise either. The
    lines written to the log are not part of the model, and \<^verbatim>\<open>context\<close>, used by them alone,
    is left out with them.
\<close>

subsection \<open>Exceptions, coroutines and Python objects\<close>

text \<open>
  \<open>Exception k m\<close> is an instance of a class named \<open>k\<close> that derives from \<^verbatim>\<open>Exception\<close>, with
  the string form \<open>m\<close>, its message (every built-in exception is of this kind, or of the
  next). \<open>BaseException k m\<close> is an instance of a class that derives from \<^verbatim>\<open>BaseException\<close>
  only (\<^verbatim>\<open>asyncio.CancelledError\<close>, \<^verbatim>\<open>KeyboardInterrupt\<close>, \<^verbatim>\<open>SystemExit\<close>); no handler of the
  code catches it, so the code never formats it. \<open>Unprintable k x\<close> is an instance of a
  class named \<open>k\<close> that derives from \<^verbatim>\<open>Exception\<close> and whose \<^verbatim>\<open>__str__\<close> raises \<open>x\<close>.
\<close>

datatype py_exception =
    Exception string string
  | BaseException string string
  | Unprintable string py_exception

text \<open>\<^verbatim>\<open>isinstance(e, Exception)\<close>: what \<^verbatim>\<open>except Exception\<close> catches.\<close>

fun isinstance_Exception :: "py_exception \<Rightarrow> bool" where
  "isinstance_Exception (Exception k m) = True"
| "isinstance_Exception (BaseException k m) = False"
| "isinstance_Exception (Unprintable k x) = True"

text \<open>\<^verbatim>\<open>str(e)\<close>, as the f-string \<^verbatim>\<open>f"... {e}"\<close> evaluates it: the text, or the exception raised.\<close>

fun py_str :: "py_exception \<Rightarrow> py_exception + string" where
  "py_str (Exception k m) = Inr m"
| "py_str (BaseException k m) = Inr m"
| "py_str (Unprintable k x) = Inl x"

type_synonym ('s, 'a) coro = "'s \<Rightarrow> (py_exception + 'a) \<times> 's"

text \<open>
  The arguments \<^verbatim>\<open>primary\<close> and \<^verbatim>\<open>fallback\<close> of \<^verbatim>\<open>vortex_flow\<close> are untyped at run time:
  the annotation says \<^verbatim>\<open>Callable[[], T]\<close>, the default of \<^verbatim>\<open>fallback\<close> is \<^verbatim>\<open>None\<close>. An
  argument is \<^verbatim>\<open>None\<close>, a callable object (with its truth value: a function is always
  true, an object whose class defines \<^verbatim>\<open>__bool__\<close> or \<^verbatim>\<open>__len__\<close> may be false), or
  any other object, given by the name of its type and its truth value. What the callable
  does when it is called and awaited is its coroutine; a plain function that returns
  something that cannot be awaited is a callable whose coroutine raises \<^verbatim>\<open>TypeError\<close>.
\<close>

datatype ('s, 'a) py_object =
    PyNone
  | Callable bool "('s, 'a) coro"
  | Other string bool

fun truthy :: "('s, 'a) py_object \<Rightarrow> bool" where
  "truthy PyNone = False"
| "truthy (Callable b f) = b"
| "truthy (Other tn b) = b"

text \<open>
  \<^verbatim>\<open>await obj()\<close>: calling an object that is not callable raises
  \<^verbatim>\<open>TypeError("'<type>' object is not callable")\<close> and leaves the world as it was.
\<close>

definition not_callable :: "string \<Rightarrow> py_exception" where
  "not_callable tn = Exception ''TypeError'' ([CHR 0x27] @ tn @ [CHR 0x27] @ '' object is not callable'')"

fun await_call :: "('s, 'a) py_object \<Rightarrow> ('s, 'a) coro" where
  "await_call PyNone s = (Inl (not_callable ''NoneType''), s)"
| "await_call (Callable b f) s = f s"
| "await_call (Other tn b) s = (Inl (not_callable tn), s)"

subsection \<open>The retry library, as \<^verbatim>\<open>vortex_task\<close> configures it\<close>

text \<open>
  \<^verbatim>\<open>vortex_task\<close> returns \<^verbatim>\<open>tenacity.retry(stop=stop_after_attempt(retries),
  wait=wait_exponential(multiplier=1, min=min_wait, max=max_wait), reraise=True)\<close>.
  tenacity is a third-party package the file imports, not code of the repository; the
  definitions below follow the package's own source (release 8.2.3: \<^verbatim>\<open>stop.py\<close>,
  \<^verbatim>\<open>wait.py\<close>, \<^verbatim>\<open>_utils.py\<close>, \<^verbatim>\<open>retry.py\<close>, \<^verbatim>\<open>_asyncio.py\<close> and \<^verbatim>\<open>BaseRetrying.iter\<close>).

  \<^verbatim>\<open>stop_after_attempt.__call__\<close>: \<^verbatim>\<open>retry_state.attempt_number >= self.max_attempt_number\<close>.
\<close>

definition stop_after_attempt :: "int \<Rightarrow> int \<Rightarrow> bool" where
  "stop_after_attempt max_attempt_number attempt_number \<longleftrightarrow> attempt_number \<ge> max_attempt_number"

text \<open>
  \<^verbatim>\<open>wait_exponential.__init__\<close> stores \<^verbatim>\<open>self.min = to_seconds(min)\<close> and
  \<^verbatim>\<open>self.max = to_seconds(max)\<close>, and \<^verbatim>\<open>to_seconds\<close> of a number is \<^verbatim>\<open>float(number)\<close>. The
  source annotates \<^verbatim>\<open>min_wait\<close> and \<^verbatim>\<open>max_wait\<close> as \<^verbatim>\<open>int\<close>. The float of a Python integer is
  the nearest double, ties going to the even mantissa; it is again an integer, and the
  same integer when the magnitude is at most \<open>2 ^ 53\<close>. \<open>bit_length\<close> is Python's
  \<^verbatim>\<open>int.bit_length\<close>; \<open>round_to_double\<close> keeps the 53 leading bits of a magnitude and
  rounds the rest to nearest, ties to even.

  Beyond the range of a double (a magnitude that rounds to \<open>2 ^ 1024\<close> or more) \<^verbatim>\<open>float()\<close>
  raises \<^verbatim>\<open>OverflowError\<close>, and it does so when \<^verbatim>\<open>vortex_task(...)\<close> is called, before
  anything is wrapped. The model has no such case: \<open>to_seconds\<close> rounds as if the exponent
  were unbounded, and a run in the model is the run of a wrapper that was built. The
  theorems that give the delays by a formula, or speak of configurations, take \<^verbatim>\<open>min_wait\<close>
  and \<^verbatim>\<open>max_wait\<close> of magnitude at most \<open>2 ^ 53\<close>; in the others the delays are those of
  \<open>wait_exponential\<close> as it is defined here.
\<close>

fun bit_length :: "nat \<Rightarrow> nat" where
  "bit_length n = (if n = 0 then 0 else Suc (bit_length (n div 2)))"

declare bit_length.simps [simp del]

definition round_to_double :: "nat \<Rightarrow> nat" where
  "round_to_double a =
     (let n = bit_length a in
      if n \<le> 53 then a
      else
        let shift = n - 53;
            q = a div 2 ^ shift;
            r = a mod 2 ^ shift;
            half = 2 ^ (shift - 1);
            q' = (if half < r \<or> (r = half \<and> odd q) then q + 1 else q)
        in q' * 2 ^ shift)"

definition to_seconds :: "int \<Rightarrow> int" where
  "to_seconds x = (if x < 0 then - int (round_to_double (nat (- x))) else int (round_to_double (nat x)))"

text \<open>
  \<^verbatim>\<open>wait_exponential.__call__\<close>:
  \<^verbatim>\<open>exp = self.exp_base ** (retry_state.attempt_number - 1); result = self.multiplier * exp;
  return max(max(0, self.min), min(result, self.max))\<close>.
  The attempt number starts at 1 and only grows, so the exponent is a natural number, and
  with the integers \<^verbatim>\<open>multiplier=1\<close> and \<^verbatim>\<open>exp_base=2\<close> the result is an integer, which Python
  compares with the floats exactly. The value returned is an integer, as an \<^verbatim>\<open>int\<close> or as a
  float.
\<close>

definition wait_exponential :: "int \<Rightarrow> int \<Rightarrow> int \<Rightarrow> int \<Rightarrow> int \<Rightarrow> int" where
  "wait_exponential multiplier min_w max_w exp_base attempt_number =
     (let exp = exp_base ^ nat (attempt_number - 1);
          result = multiplier * exp
      in max (max 0 (to_seconds min_w)) (min result (to_seconds max_w)))"

text \<open>
  The default retry predicate \<^verbatim>\<open>retry_if_exception_type()\<close>: retry when the attempt
  raised an instance of \<^verbatim>\<open>Exception\<close>. (The package's \<^verbatim>\<open>TryAgain\<close> is an \<^verbatim>\<open>Exception\<close>,
  so its explicit-retry test adds nothing to this predicate.)
\<close>

definition retry_if_exception_type :: "py_exception \<Rightarrow> bool" where [simp]:
  "retry_if_exception_type e = isinstance_Exception e"

text \<open>
  \<^verbatim>\<open>AsyncRetrying.__call__\<close> with \<^verbatim>\<open>BaseRetrying.iter\<close> inlined, for \<^verbatim>\<open>reraise=True\<close>:
  \<^verbatim>\<open>
  retry_state.attempt_number = 1
  while True:
      try: result = await fn()                  # DoAttempt
      except BaseException: outcome = the exception
      else: outcome = result
      if not retry(outcome): return outcome.result()     # returns, or raises it
      if stop(retry_state): raise the exception of the outcome   # reraise=True
      sleep = wait(retry_state)
      retry_state.attempt_number += 1           # prepare_for_next_attempt
      await self.sleep(sleep)                   # DoSleep; outside the try
  \<close>
  \<^verbatim>\<open>self.sleep\<close> is \<^verbatim>\<open>asyncio.sleep\<close>, which the source does not override: the model takes
  it as the parameter \<open>sleep\<close>, a coroutine of the runtime that may itself raise (the
  task was cancelled during the wait). The loop ends because an attempt is followed by
  another only while \<open>attempt_number < max_attempt_number\<close>.
\<close>

function AsyncRetrying_call ::
  "(int \<Rightarrow> ('s, unit) coro) \<Rightarrow> int \<Rightarrow> (int \<Rightarrow> int) \<Rightarrow> ('s, 'a) coro \<Rightarrow> int \<Rightarrow> ('s, 'a) coro" where
  "AsyncRetrying_call sleep max_attempt_number wait fn attempt_number s =
     (case fn s of
        (Inr result, s1) \<Rightarrow> (Inr result, s1)
      | (Inl e, s1) \<Rightarrow>
          if \<not> retry_if_exception_type e then (Inl e, s1)
          else if stop_after_attempt max_attempt_number attempt_number then (Inl e, s1)
          else (case sleep (wait attempt_number) s1 of
                  (Inl cancelled, s2) \<Rightarrow> (Inl cancelled, s2)
                | (Inr u, s2) \<Rightarrow>
                    AsyncRetrying_call sleep max_attempt_number wait fn (attempt_number + 1) s2))"
  by pat_completeness auto
termination
  by (relation "measure (\<lambda>(sleep, max_attempt_number, wait, fn, attempt_number, s).
        nat (max_attempt_number - attempt_number))")
     (auto simp: stop_after_attempt_def)

declare AsyncRetrying_call.simps [simp del]

text \<open>
  \<^verbatim>\<open>vortex_task(retries, min_wait, max_wait)\<close> applied to a coroutine function \<open>fn\<close>: the
  wrapped coroutine function. The defaults of the source are \<open>retries = 3\<close>,
  \<open>min_wait = 1\<close>, \<open>max_wait = 4\<close>.
\<close>

definition vortex_task ::
  "int \<Rightarrow> int \<Rightarrow> int \<Rightarrow> (int \<Rightarrow> ('s, unit) coro) \<Rightarrow> ('s, 'a) coro \<Rightarrow> ('s, 'a) coro" where
  "vortex_task retries min_wait max_wait sleep fn =
     AsyncRetrying_call sleep retries (wait_exponential 1 min_wait max_wait 2) fn 1"

subsection \<open>The flow\<close>

text \<open>
  \<^verbatim>\<open>
  try:
      logger.info(f"Executing Vector: {context}")
      return await primary()
  except Exception as e:
      logger.warning(f"... [{context}]: {e}")          # line 67: str(e)
      if fallback:
          logger.info("...")
          try:
              result = await fallback()
              logger.info("...")
              return result
          except Exception as fb_e:
              logger.error(f"... {fb_e}")              # line 76: str(fb_e)
              raise fb_e
      else:
          logger.error("...")
          raise e
  \<close>
  Line 67 stands in the handler, before the test of \<^verbatim>\<open>fallback\<close> and outside the inner
  \<^verbatim>\<open>try\<close>: when \<^verbatim>\<open>str(e)\<close> raises, that exception leaves the flow and nothing else runs.
  Line 76 stands before \<^verbatim>\<open>raise fb_e\<close>: when \<^verbatim>\<open>str(fb_e)\<close> raises, that exception leaves
  the flow in the place of \<open>fb_e\<close>. An exception outside \<^verbatim>\<open>Exception\<close> passes both handlers
  untouched and unformatted.
\<close>

definition vortex_flow :: "('s, 'a) py_object \<Rightarrow> ('s, 'a) py_object \<Rightarrow> ('s, 'a) coro" where
  "vortex_flow primary fallback s =
     (case await_call primary s of
        (Inr r, s1) \<Rightarrow> (Inr r, s1)
      | (Inl e, s1) \<Rightarrow>
          if \<not> isinstance_Exception e then (Inl e, s1)
          else
            (case py_str e of
               Inl str_error \<Rightarrow> (Inl str_error, s1)
             | Inr text \<Rightarrow>
                 if truthy fallback then
                   (case await_call fallback s1 of
                      (Inr result, s2) \<Rightarrow> (Inr result, s2)
                    | (Inl fb_e, s2) \<Rightarrow>
                        if \<not> isinstance_Exception fb_e then (Inl fb_e, s2)
                        else
                          (case py_str fb_e of
                             Inl str_error \<Rightarrow> (Inl str_error, s2)
                           | Inr fb_text \<Rightarrow> (Inl fb_e, s2)))
                 else (Inl e, s1)))"

subsection \<open>The attempts of a run, one by one\<close>

text \<open>
  The vocabulary of the claims about retries. An attempt has \<open>failed\<close> when it raised an
  instance of \<^verbatim>\<open>Exception\<close>, which is what the retry predicate asks. For a run that starts
  in the world \<open>s\<close>, \<open>before_attempt \<dots> j s\<close> is the world in which attempt \<open>j\<close> starts
  (attempts are numbered from 1): the one the wait after attempt \<open>j - 1\<close> left.
  \<open>attempt \<dots> j s\<close> is the outcome of attempt \<open>j\<close> with the world after it, and
  \<open>backoff \<dots> j s\<close> the outcome of the wait that follows attempt \<open>j\<close> with the world
  after it. \<open>retried_through \<dots> j s\<close> says that each of the attempts 1 to \<open>j\<close> failed and
  that the wait after each returned (nobody cancelled the task while it slept).
\<close>

fun failed :: "py_exception + 'a \<Rightarrow> bool" where
  "failed (Inl e) = retry_if_exception_type e"
| "failed (Inr v) = False"

fun before_attempt ::
  "(int \<Rightarrow> ('s, unit) coro) \<Rightarrow> (int \<Rightarrow> int) \<Rightarrow> ('s, 'a) coro \<Rightarrow> nat \<Rightarrow> 's \<Rightarrow> 's" where
  "before_attempt sleep wait fn 0 s = s"
| "before_attempt sleep wait fn (Suc 0) s = s"
| "before_attempt sleep wait fn (Suc (Suc j)) s =
     snd (sleep (wait (int (Suc j))) (snd (fn (before_attempt sleep wait fn (Suc j) s))))"

definition attempt ::
  "(int \<Rightarrow> ('s, unit) coro) \<Rightarrow> (int \<Rightarrow> int) \<Rightarrow> ('s, 'a) coro \<Rightarrow> nat \<Rightarrow> ('s, 'a) coro" where
  "attempt sleep wait fn j s = fn (before_attempt sleep wait fn j s)"

definition backoff ::
  "(int \<Rightarrow> ('s, unit) coro) \<Rightarrow> (int \<Rightarrow> int) \<Rightarrow> ('s, 'a) coro \<Rightarrow> nat \<Rightarrow> ('s, unit) coro" where
  "backoff sleep wait fn j s = sleep (wait (int j)) (snd (attempt sleep wait fn j s))"

fun retried_through ::
  "(int \<Rightarrow> ('s, unit) coro) \<Rightarrow> (int \<Rightarrow> int) \<Rightarrow> ('s, 'a) coro \<Rightarrow> nat \<Rightarrow> 's \<Rightarrow> bool" where
  "retried_through sleep wait fn 0 s = True"
| "retried_through sleep wait fn (Suc j) s =
     (retried_through sleep wait fn j s
      \<and> failed (fst (attempt sleep wait fn (Suc j) s))
      \<and> fst (backoff sleep wait fn (Suc j) s) = Inr ())"

text \<open>
  The delay in the words of the specification, section 4.1, step 3:
  \<^verbatim>\<open>min(max_delay, min_delay * 2^(attempt-1))\<close>. It is compared with what the code waits.
\<close>

definition spec_delay :: "int \<Rightarrow> int \<Rightarrow> int \<Rightarrow> int" where
  "spec_delay min_delay max_delay i = min max_delay (min_delay * 2 ^ nat (i - 1))"

text \<open>Python's \<^verbatim>\<open>callable(obj)\<close>.\<close>

fun callable :: "('s, 'a) py_object \<Rightarrow> bool" where
  "callable PyNone = False"
| "callable (Callable b f) = True"
| "callable (Other tn b) = False"

subsection \<open>Probes: call counters and the record of the waits\<close>

text \<open>
  What a test observes through a call counter is observed here through a probe around
  the world: \<open>counted\<close> wraps an operation so that each invocation adds one to \<open>calls\<close>,
  \<open>counted_fb\<close> does the same for a fallback on \<open>fb_calls\<close>, and \<open>recorded\<close> wraps the
  runtime's sleep so that each call appends its duration to \<open>delays\<close>. The wrapped
  coroutine acts on the inner world exactly as the bare one does.
\<close>

record 's probe =
  inner :: 's
  calls :: nat
  fb_calls :: nat
  delays :: "int list"

definition fresh :: "'s \<Rightarrow> 's probe" where
  "fresh s = \<lparr>inner = s, calls = 0, fb_calls = 0, delays = []\<rparr>"

definition counted :: "('s, 'a) coro \<Rightarrow> ('s probe, 'a) coro" where
  "counted fn w = (case fn (inner w) of (r, s') \<Rightarrow> (r, w\<lparr>inner := s', calls := Suc (calls w)\<rparr>))"

definition counted_fb :: "('s, 'a) coro \<Rightarrow> ('s probe, 'a) coro" where
  "counted_fb fn w = (case fn (inner w) of (r, s') \<Rightarrow> (r, w\<lparr>inner := s', fb_calls := Suc (fb_calls w)\<rparr>))"

definition recorded :: "(int \<Rightarrow> ('s, unit) coro) \<Rightarrow> int \<Rightarrow> ('s probe, unit) coro" where
  "recorded sleep d w = (case sleep d (inner w) of (r, s') \<Rightarrow> (r, w\<lparr>inner := s', delays := delays w @ [d]\<rparr>))"

fun map_callable :: "(('s, 'a) coro \<Rightarrow> ('t, 'b) coro) \<Rightarrow> ('s, 'a) py_object \<Rightarrow> ('t, 'b) py_object" where
  "map_callable h PyNone = PyNone"
| "map_callable h (Callable b f) = Callable b (h f)"
| "map_callable h (Other tn b) = Other tn b"

subsection \<open>Operations of the demonstration\<close>

text \<open>
  \<^verbatim>\<open>fetch_from_cloud\<close> of the demonstration (its body, without the decorator) raises \<^verbatim>\<open>ConnectionError("Connection Reset by
  Peer")\<close> when \<^verbatim>\<open>random.random() < 0.7\<close> and returns \<^verbatim>\<open>"CLOUD_DATA_PACKET_V1"\<close> otherwise;
  the world is the list of the draws still to come, in percent (a missing draw counts as
  a failure). \<^verbatim>\<open>load_local_backup\<close> returns \<^verbatim>\<open>"LOCAL_DATA_PACKET_BACKUP"\<close>. \<open>quiet_sleep\<close>
  is a sleep that nobody cancels.
\<close>

definition connection_reset :: py_exception where
  "connection_reset = Exception ''ConnectionError'' ''Connection Reset by Peer''"

fun fetch_from_cloud :: "(nat list, string) coro" where
  "fetch_from_cloud [] = (Inl connection_reset, [])"
| "fetch_from_cloud (d # ds) =
     (if d < 70 then (Inl connection_reset, ds) else (Inr ''CLOUD_DATA_PACKET_V1'', ds))"

definition load_local_backup :: "('s, string) coro" where
  "load_local_backup s = (Inr ''LOCAL_DATA_PACKET_BACKUP'', s)"

definition disk_failure :: py_exception where
  "disk_failure = Exception ''OSError'' ''disk not mounted''"

definition broken_backup :: "('s, string) coro" where
  "broken_backup s = (Inl disk_failure, s)"

definition quiet_sleep :: "int \<Rightarrow> ('s, unit) coro" where
  "quiet_sleep d s = (Inr (), s)"

text \<open>
  Cancelling an asyncio task raises \<^verbatim>\<open>asyncio.CancelledError\<close> inside the coroutine, at the
  \<^verbatim>\<open>await\<close> where it is suspended; since Python 3.8 the class derives from
  \<^verbatim>\<open>BaseException\<close>, not from \<^verbatim>\<open>Exception\<close>. \<open>replay\<close> is an operation that plays the
  outcomes listed in the world, one for each invocation (a \<^verbatim>\<open>ConnectionError\<close> once the
  list is used up); \<open>impatient_sleep\<close> is the sleep of a task that is cancelled during any
  wait of two seconds or more.
\<close>

definition cancelled_error :: py_exception where
  "cancelled_error = BaseException ''CancelledError'' []"

fun replay :: "((py_exception + 'a) list, 'a) coro" where
  "replay [] = (Inl connection_reset, [])"
| "replay (x # xs) = (x, xs)"

definition impatient_sleep :: "int \<Rightarrow> ('s, unit) coro" where
  "impatient_sleep d s = (if d < 2 then (Inr (), s) else (Inl cancelled_error, s))"




section \<open>Integers as floats\<close>

lemma bit_length_le: "a < 2 ^ k \<Longrightarrow> bit_length a \<le> k"
proof (induction k arbitrary: a)
  case 0
  then show ?case by (simp add: bit_length.simps)
next
  case (Suc k)
  then have "a div 2 < 2 ^ k" by simp
  then have "bit_length (a div 2) \<le> k" by (rule Suc.IH)
  then show ?case by (subst bit_length.simps) simp
qed

lemma bit_length_eq: "2 ^ k \<le> a \<Longrightarrow> a < 2 ^ Suc k \<Longrightarrow> bit_length a = Suc k"
proof (induction k arbitrary: a)
  case 0
  then have "a = 1" by simp
  then show ?case by (simp add: bit_length.simps)
next
  case (Suc k)
  then have "2 ^ k \<le> a div 2" and "a div 2 < 2 ^ Suc k" by simp_all
  then have "bit_length (a div 2) = Suc k" by (rule Suc.IH)
  moreover from Suc.prems have "a \<noteq> 0" by auto
  ultimately show ?case by (subst bit_length.simps) simp
qed

lemma round_to_double_exact: "a \<le> 2 ^ 53 \<Longrightarrow> round_to_double a = a"
proof (cases "a < 2 ^ 53")
  case True
  then have "bit_length a \<le> 53" by (rule bit_length_le)
  then show ?thesis by (simp add: round_to_double_def)
next
  case False
  moreover assume "a \<le> 2 ^ 53"
  ultimately have a: "a = 2 ^ 53" by simp
  have "bit_length a = Suc 53" unfolding a by (rule bit_length_eq) simp_all
  then show ?thesis by (simp add: round_to_double_def a Let_def)
qed

text \<open>Every integer of magnitude at most \<open>2 ^ 53\<close> is its own float.\<close>

lemma to_seconds_exact [simp]: "\<bar>x\<bar> \<le> 2 ^ 53 \<Longrightarrow> to_seconds x = x"
proof -
  assume b: "\<bar>x\<bar> \<le> 2 ^ 53"
  show ?thesis
  proof (cases "x < 0")
    case True
    with b have "nat (- x) \<le> 2 ^ 53" by (simp add: nat_le_iff)
    then show ?thesis using True by (simp add: to_seconds_def round_to_double_exact)
  next
    case False
    with b have "nat x \<le> 2 ^ 53" by (simp add: nat_le_iff)
    then show ?thesis using False by (simp add: to_seconds_def round_to_double_exact)
  qed
qed

text \<open>Beyond, the float is another integer: \<^verbatim>\<open>float(2**53 + 1) == 2**53\<close>, a tie that goes to the even mantissa.\<close>

lemma to_seconds_rounds: "to_seconds (2 ^ 53 + 1) = 2 ^ 53"
proof -
  have "bit_length (2 ^ 53 + 1) = Suc 53" by (rule bit_length_eq) simp_all
  then show ?thesis by (simp add: to_seconds_def round_to_double_def Let_def)
qed

section \<open>The flow controller\<close>

lemma truthy_map_callable [simp]: "truthy (map_callable h obj) = truthy obj"
  by (cases obj) simp_all

lemma await_call_counted:
  "await_call (map_callable counted obj) w =
     (case await_call obj (inner w) of
        (r, s') \<Rightarrow> (r, w\<lparr>inner := s', calls := (case obj of Callable b f \<Rightarrow> Suc (calls w) | _ \<Rightarrow> calls w)\<rparr>))"
  by (cases obj) (simp_all add: counted_def split: prod.splits)

subsection \<open>Primary fails, fallback returns\<close>




subsection \<open>Primary fails, fallback fails\<close>




subsection \<open>Primary returns\<close>

text \<open>
  C5. When the primary returns \<open>r\<close>, \<^verbatim>\<open>vortex_flow\<close> returns \<open>r\<close> and leaves the world as
  the primary left it, whatever the fallback is; with call counters around both, the
  primary has been invoked once and the counter of the fallback is still zero.
\<close>

theorem vortex_flow_primary_result:
  assumes "await_call primary s = (Inr r, s1)"
  shows "vortex_flow primary fallback s = (Inr r, s1)
       \<and> vortex_flow (map_callable counted primary) (map_callable counted_fb fallback) (fresh s)
           = (Inr r, \<lparr>inner = s1, calls = 1, fb_calls = 0, delays = []\<rparr>)"
proof -
  from assms obtain b f where p: "primary = Callable b f"
    by (cases primary) simp_all
  have "vortex_flow primary fallback s = (Inr r, s1)"
    using assms by (simp add: vortex_flow_def)
  moreover have "await_call (map_callable counted primary) (fresh s)
      = (Inr r, \<lparr>inner = s1, calls = 1, fb_calls = 0, delays = []\<rparr>)"
    using assms by (simp add: p counted_def fresh_def)
  then have "vortex_flow (map_callable counted primary) (map_callable counted_fb fallback) (fresh s)
      = (Inr r, \<lparr>inner = s1, calls = 1, fb_calls = 0, delays = []\<rparr>)"
    by (simp add: vortex_flow_def)
  ultimately show ?thesis by simp
qed

theorem vortex_flow_primary_result_witness:
  "await_call (Callable True fetch_from_cloud) [81, 12] = (Inr ''CLOUD_DATA_PACKET_V1'', [12])
   \<and> vortex_flow (Callable True fetch_from_cloud) (Callable True load_local_backup) [81, 12]
       = (Inr ''CLOUD_DATA_PACKET_V1'', [12])
   \<and> vortex_flow (map_callable counted (Callable True fetch_from_cloud))
        (map_callable counted_fb (Callable True load_local_backup)) (fresh [81, 12])
       = (Inr ''CLOUD_DATA_PACKET_V1'', \<lparr>inner = [12], calls = 1, fb_calls = 0, delays = []\<rparr>)"
  using vortex_flow_primary_result
          [of "Callable True fetch_from_cloud" "[81, 12]" "''CLOUD_DATA_PACKET_V1''" "[12]"
              "Callable True load_local_backup"]
  by simp

subsection \<open>Primary fails, no fallback\<close>




subsection \<open>A fallback that is false\<close>




section \<open>The retry executor\<close>

subsection \<open>One step of the loop, seen through the probes\<close>

lemma failedE: "failed x \<Longrightarrow> (\<And>e. x = Inl e \<Longrightarrow> isinstance_Exception e \<Longrightarrow> P) \<Longrightarrow> P"
  by (cases x) simp_all

text \<open>A failed attempt with attempts left, followed by a wait that returns.\<close>

lemma retry_step:
  assumes "failed (fst (fn (inner w)))"
    and "fst (sleep (wait a) (snd (fn (inner w)))) = Inr ()"
    and "a < N"
  shows "AsyncRetrying_call (recorded sleep) N wait (counted fn) a w =
         AsyncRetrying_call (recorded sleep) N wait (counted fn) (a + 1)
           (w\<lparr>inner := snd (sleep (wait a) (snd (fn (inner w)))),
              calls := Suc (calls w), delays := delays w @ [wait a]\<rparr>)"
proof -
  obtain i c fb d where w: "w = \<lparr>inner = i, calls = c, fb_calls = fb, delays = d\<rparr>"
    by (cases w)
  from assms(1) have "failed (fst (fn i))" by (simp add: w)
  then obtain e where e: "fst (fn i) = Inl e" and ie: "isinstance_Exception e"
    by (rule failedE)
  obtain s1 where f: "fn i = (Inl e, s1)"
    using e by (cases "fn i") simp
  obtain s2 where sl: "sleep (wait a) s1 = (Inr (), s2)"
    using assms(2) f by (cases "sleep (wait a) s1") (simp add: w)
  show ?thesis
    unfolding w using assms(3)
    by (subst AsyncRetrying_call.simps)
       (simp add: counted_def recorded_def f ie sl stop_after_attempt_def)
qed

text \<open>The attempt that ends a run: it returned, it raised outside \<^verbatim>\<open>Exception\<close>, or no attempt is left.\<close>

lemma retry_last:
  assumes "\<not> failed (fst (fn (inner w))) \<or> N \<le> a"
  shows "AsyncRetrying_call (recorded sleep) N wait (counted fn) a w =
         (fst (fn (inner w)), w\<lparr>inner := snd (fn (inner w)), calls := Suc (calls w)\<rparr>)"
proof -
  obtain x s1 where f: "fn (inner w) = (x, s1)" by (cases "fn (inner w)")
  show ?thesis
  proof (cases x)
    case (Inr r)
    then show ?thesis
      by (subst AsyncRetrying_call.simps) (simp add: counted_def f)
  next
    case (Inl e)
    then show ?thesis
      using assms
      by (subst AsyncRetrying_call.simps) (auto simp add: counted_def f stop_after_attempt_def)
  qed
qed

text \<open>A wait that raises ends the run with what it raised.\<close>

lemma retry_wait_raises:
  assumes "failed (fst (fn (inner w)))"
    and "fst (sleep (wait a) (snd (fn (inner w)))) = Inl c"
    and "a < N"
  shows "AsyncRetrying_call (recorded sleep) N wait (counted fn) a w =
         (Inl c, w\<lparr>inner := snd (sleep (wait a) (snd (fn (inner w)))),
              calls := Suc (calls w), delays := delays w @ [wait a]\<rparr>)"
proof -
  obtain i n fb d where w: "w = \<lparr>inner = i, calls = n, fb_calls = fb, delays = d\<rparr>"
    by (cases w)
  from assms(1) have "failed (fst (fn i))" by (simp add: w)
  then obtain e where e: "fst (fn i) = Inl e" and ie: "isinstance_Exception e"
    by (rule failedE)
  obtain s1 where f: "fn i = (Inl e, s1)"
    using e by (cases "fn i") simp
  obtain s2 where sl: "sleep (wait a) s1 = (Inl c, s2)"
    using assms(2) f by (cases "sleep (wait a) s1") (simp add: w)
  show ?thesis
    unfolding w using assms(3)
    by (subst AsyncRetrying_call.simps)
       (simp add: counted_def recorded_def f ie sl stop_after_attempt_def)
qed

text \<open>The probes change nothing: the bare run has the same outcome and leaves the inner world.\<close>

lemma probes_transparent:
  "AsyncRetrying_call (recorded sleep) N wait (counted fn) a w = (r, w') \<Longrightarrow>
   AsyncRetrying_call sleep N wait fn a (inner w) = (r, inner w')"
proof (induction "nat (N - a)" arbitrary: a w)
  case 0
  from "0.prems" "0.hyps" show ?case
    by (subst AsyncRetrying_call.simps, subst (asm) AsyncRetrying_call.simps)
       (auto simp add: counted_def recorded_def stop_after_attempt_def
          split: prod.splits sum.splits if_splits)
next
  case (Suc n)
  from Suc.hyps(2) have n: "n = nat (N - (a + 1))" by simp
  note ih = Suc.hyps(1) [OF n]
  from Suc.prems show ?case
    by (subst AsyncRetrying_call.simps, subst (asm) AsyncRetrying_call.simps)
       (auto simp add: counted_def recorded_def stop_after_attempt_def
          split: prod.splits sum.splits if_splits dest: ih)
qed

subsection \<open>A run, from its first attempt to its last\<close>

text \<open>After \<open>k\<close> failed attempts and their waits the loop stands at attempt \<open>k + 1\<close>.\<close>

lemma retry_prefix:
  assumes "retried_through sleep wait fn k s" and "int k < N"
  shows "AsyncRetrying_call (recorded sleep) N wait (counted fn) 1 (fresh s) =
         AsyncRetrying_call (recorded sleep) N wait (counted fn) (int k + 1)
           \<lparr>inner = before_attempt sleep wait fn (Suc k) s, calls = k, fb_calls = 0,
            delays = map wait [1..int k]\<rparr>"
  using assms
proof (induction k)
  case 0
  then show ?case by (simp add: fresh_def)
next
  case (Suc k)
  let ?w = "\<lparr>inner = before_attempt sleep wait fn (Suc k) s, calls = k, fb_calls = 0,
            delays = map wait [1..int k]\<rparr>"
  from Suc.prems have ft: "retried_through sleep wait fn k s"
    and fl: "failed (fst (fn (inner ?w)))"
    and sl: "fst (sleep (wait (int k + 1)) (snd (fn (inner ?w)))) = Inr ()"
    and lt: "int k + 1 < N"
    by (simp_all add: attempt_def backoff_def add.commute)
  have "AsyncRetrying_call (recorded sleep) N wait (counted fn) 1 (fresh s) =
        AsyncRetrying_call (recorded sleep) N wait (counted fn) (int k + 1) ?w"
    using Suc.IH ft lt by simp
  also have "\<dots> = AsyncRetrying_call (recorded sleep) N wait (counted fn) (int k + 1 + 1)
           (?w\<lparr>inner := snd (sleep (wait (int k + 1)) (snd (fn (inner ?w)))),
              calls := Suc (calls ?w), delays := delays ?w @ [wait (int k + 1)]\<rparr>)"
    using fl sl lt by (rule retry_step)
  also have "\<dots> = AsyncRetrying_call (recorded sleep) N wait (counted fn) (int (Suc k) + 1)
           \<lparr>inner = before_attempt sleep wait fn (Suc (Suc k)) s, calls = Suc k, fb_calls = 0,
            delays = map wait [1..int (Suc k)]\<rparr>"
    by (simp add: upto_rec2 add.commute)
  finally show ?case .
qed

lemma run_until_last:
  assumes "retried_through sleep wait fn (K - 1) s" and "1 \<le> K" and "int K \<le> N \<or> K = 1"
    and "\<not> failed (fst (attempt sleep wait fn K s)) \<or> N \<le> int K"
  shows "AsyncRetrying_call (recorded sleep) N wait (counted fn) 1 (fresh s) =
         (fst (attempt sleep wait fn K s),
          \<lparr>inner = snd (attempt sleep wait fn K s), calls = K, fb_calls = 0,
           delays = map wait [1..int K - 1]\<rparr>)"
proof (cases "K = 1")
  case True
  then show ?thesis
    using assms(4) retry_last [of fn "fresh s" N 1 sleep wait]
    by (auto simp add: attempt_def fresh_def)
next
  case False
  with assms(2,3) have lt: "int (K - 1) < N" by auto
  from assms(2) have K: "Suc (K - 1) = K" "int (K - 1) + 1 = int K" by simp_all
  let ?w = "\<lparr>inner = before_attempt sleep wait fn K s, calls = K - 1, fb_calls = 0,
            delays = map wait [1..int K - 1]\<rparr>"
  have "AsyncRetrying_call (recorded sleep) N wait (counted fn) 1 (fresh s) =
        AsyncRetrying_call (recorded sleep) N wait (counted fn) (int K) ?w"
    using retry_prefix [OF assms(1) lt] assms(2) by (simp add: K)
  also have "\<dots> = (fst (fn (inner ?w)), ?w\<lparr>inner := snd (fn (inner ?w)), calls := Suc (calls ?w)\<rparr>)"
    using assms(4) by (intro retry_last) (simp add: attempt_def)
  finally show ?thesis using assms(2) by (simp add: attempt_def)
qed

lemma run_until_wait_raises:
  assumes "retried_through sleep wait fn (K - 1) s" and "1 \<le> K" and "int K < N"
    and "failed (fst (attempt sleep wait fn K s))"
    and "fst (backoff sleep wait fn K s) = Inl c"
  shows "AsyncRetrying_call (recorded sleep) N wait (counted fn) 1 (fresh s) =
         (Inl c,
          \<lparr>inner = snd (backoff sleep wait fn K s), calls = K, fb_calls = 0,
           delays = map wait [1..int K]\<rparr>)"
proof -
  from assms(2,3) have lt: "int (K - 1) < N" by auto
  from assms(2) have K: "Suc (K - 1) = K" "int (K - 1) + 1 = int K" by simp_all
  let ?w = "\<lparr>inner = before_attempt sleep wait fn K s, calls = K - 1, fb_calls = 0,
            delays = map wait [1..int K - 1]\<rparr>"
  have "AsyncRetrying_call (recorded sleep) N wait (counted fn) 1 (fresh s) =
        AsyncRetrying_call (recorded sleep) N wait (counted fn) (int K) ?w"
    using retry_prefix [OF assms(1) lt] assms(2) by (simp add: K)
  also have "\<dots> = (Inl c, ?w\<lparr>inner := snd (sleep (wait (int K)) (snd (fn (inner ?w)))),
              calls := Suc (calls ?w), delays := delays ?w @ [wait (int K)]\<rparr>)"
    using assms(3,4,5) by (intro retry_wait_raises) (simp_all add: attempt_def backoff_def)
  finally show ?thesis using assms(2) by (simp add: attempt_def backoff_def upto_rec2)
qed

text \<open>
  Whatever the operation does, a run whose waits all return makes at least one attempt,
  at most \<open>max 1 N\<close>, and sleeps once between two attempts, the \<open>i\<close>-th time for
  \<open>wait i\<close>.
\<close>

lemma run_counts:
  assumes quiet: "\<forall>d s. fst (sleep d s) = Inr ()"
  shows "AsyncRetrying_call (recorded sleep) N wait (counted fn) a w = (r, w') \<Longrightarrow>
         calls w < calls w'
         \<and> int (calls w' - calls w) \<le> max 1 (N - a + 1)
         \<and> delays w' = delays w @ map wait [a..a + int (calls w' - calls w) - 2]"
proof (induction "nat (N - a)" arbitrary: a w)
  case 0
  then have "N \<le> a" by simp
  then have "AsyncRetrying_call (recorded sleep) N wait (counted fn) a w =
         (fst (fn (inner w)), w\<lparr>inner := snd (fn (inner w)), calls := Suc (calls w)\<rparr>)"
    by (intro retry_last) simp
  with "0.prems" show ?case by auto
next
  case (Suc n)
  then have lt: "a < N" by simp
  show ?case
  proof (cases "failed (fst (fn (inner w)))")
    case False
    then have "AsyncRetrying_call (recorded sleep) N wait (counted fn) a w =
         (fst (fn (inner w)), w\<lparr>inner := snd (fn (inner w)), calls := Suc (calls w)\<rparr>)"
      by (intro retry_last) simp
    with Suc.prems show ?thesis by auto
  next
    case True
    let ?w2 = "w\<lparr>inner := snd (sleep (wait a) (snd (fn (inner w)))),
              calls := Suc (calls w), delays := delays w @ [wait a]\<rparr>"
    have "AsyncRetrying_call (recorded sleep) N wait (counted fn) a w =
          AsyncRetrying_call (recorded sleep) N wait (counted fn) (a + 1) ?w2"
      using True quiet lt by (intro retry_step) simp_all
    with Suc.prems have run: "AsyncRetrying_call (recorded sleep) N wait (counted fn) (a + 1) ?w2 = (r, w')"
      by simp
    from Suc.hyps(2) have n: "n = nat (N - (a + 1))" by simp
    have ih: "calls ?w2 < calls w'
        \<and> int (calls w' - calls ?w2) \<le> max 1 (N - (a + 1) + 1)
        \<and> delays w' = delays ?w2 @ map wait [a + 1..a + 1 + int (calls w' - calls ?w2) - 2]"
      by (rule Suc.hyps(1) [OF n run])
    have c2: "calls ?w2 = Suc (calls w)" and d2: "delays ?w2 = delays w @ [wait a]"
      by simp_all
    from ih have 1: "Suc (calls w) < calls w'"
      unfolding c2 by blast
    from ih have 2: "int (calls w' - Suc (calls w)) \<le> max 1 (N - (a + 1) + 1)"
      unfolding c2 by blast
    from ih have 3: "delays w' = (delays w @ [wait a]) @ map wait [a + 1..a + 1 + int (calls w' - Suc (calls w)) - 2]"
      unfolding c2 d2 by blast
    from 1 have m: "int (calls w' - calls w) = int (calls w' - Suc (calls w)) + 1" by simp
    from 1 have up: "[a..a + int (calls w' - calls w) - 2] = a # [a + 1..a + 1 + int (calls w' - Suc (calls w)) - 2]"
      by (subst upto_rec1) (simp_all add: m)
    have b: "int (calls w' - calls w) \<le> max 1 (N - a + 1)"
      using 2 lt unfolding m by linarith
    have d: "delays w' = delays w @ map wait [a..a + int (calls w' - calls w) - 2]"
      using 3 by (simp add: up)
    show ?thesis using 1 b d by simp
  qed
qed

subsection \<open>The waits of \<^verbatim>\<open>wait_exponential(multiplier=1, min=min_wait, max=max_wait)\<close>\<close>

lemma wait_exponential_exact:
  assumes "\<bar>mn\<bar> \<le> 2 ^ 53" and "\<bar>mx\<bar> \<le> 2 ^ 53"
  shows "wait_exponential 1 mn mx 2 i = max (max 0 mn) (min (2 ^ nat (i - 1)) mx)"
  using assms by (simp add: wait_exponential_def)

lemma wait_exponential_bounds:
  assumes "\<bar>mn\<bar> \<le> 2 ^ 53" and "\<bar>mx\<bar> \<le> 2 ^ 53" and "0 \<le> mn" and "mn \<le> mx"
  shows "mn \<le> wait_exponential 1 mn mx 2 i" and "wait_exponential 1 mn mx 2 i \<le> mx"
  using assms by (simp_all add: wait_exponential_exact)

lemma wait_exponential_mono:
  assumes "i \<le> j"
  shows "wait_exponential 1 mn mx 2 i \<le> wait_exponential 1 mn mx 2 j"
proof -
  have "(2::int) ^ nat (i - 1) \<le> 2 ^ nat (j - 1)"
    using assms by (intro power_increasing) simp_all
  then show ?thesis
    unfolding wait_exponential_def Let_def by linarith
qed

lemma sorted_waits: "sorted (map (wait_exponential 1 mn mx 2) [a..b])"
proof -
  have "sorted_wrt (\<le>) [a..b]" by simp
  then have "sorted_wrt (\<lambda>i j. wait_exponential 1 mn mx 2 i \<le> wait_exponential 1 mn mx 2 j) [a..b]"
    by (rule sorted_wrt_mono_rel [rotated]) (simp add: wait_exponential_mono)
  then show ?thesis by (simp add: sorted_map)
qed

subsection \<open>Exhaustion and first success\<close>



text \<open>
  C7. Let the operation succeed on attempt \<open>K \<le> N\<close>: each of the attempts 1 to \<open>K - 1\<close>
  raises an instance of \<^verbatim>\<open>Exception\<close> and is followed by a wait that returns, and attempt
  \<open>K\<close> returns \<open>r\<close>. Then the wrapped call returns \<open>r\<close>; the operation has been invoked
  exactly \<open>K\<close> times; the world is the one attempt \<open>K\<close> left, so that nothing ran after
  it, neither a wait (the \<open>K - 1\<close> waits slept are those after the attempts 1 to
  \<open>K - 1\<close>) nor one of the attempts \<open>K + 1\<close> to \<open>N\<close>. The run without probes returns \<open>r\<close>
  too.
\<close>

theorem retry_returns_first_success:
  assumes "1 \<le> K" and "int K \<le> N"
    and "retried_through sleep (wait_exponential 1 mn mx 2) fn (K - 1) s"
    and "fst (attempt sleep (wait_exponential 1 mn mx 2) fn K s) = Inr r"
  shows "vortex_task N mn mx (recorded sleep) (counted fn) (fresh s) =
           (Inr r,
            \<lparr>inner = snd (attempt sleep (wait_exponential 1 mn mx 2) fn K s),
             calls = K, fb_calls = 0,
             delays = map (wait_exponential 1 mn mx 2) [1..int K - 1]\<rparr>)
       \<and> vortex_task N mn mx sleep fn s =
           (Inr r, snd (attempt sleep (wait_exponential 1 mn mx 2) fn K s))"
proof -
  let ?wait = "wait_exponential 1 mn mx 2"
  have p: "AsyncRetrying_call (recorded sleep) N ?wait (counted fn) 1 (fresh s) =
           (Inr r,
            \<lparr>inner = snd (attempt sleep ?wait fn K s), calls = K, fb_calls = 0,
             delays = map ?wait [1..int K - 1]\<rparr>)"
    using assms run_until_last [of sleep ?wait fn K s N] by simp
  from probes_transparent [OF p]
  have "AsyncRetrying_call sleep N ?wait fn 1 s = (Inr r, snd (attempt sleep ?wait fn K s))"
    by (simp add: fresh_def)
  with p show ?thesis by (simp add: vortex_task_def)
qed

theorem retry_returns_first_success_witness:
  "(1::nat) \<le> 2 \<and> int 2 \<le> 5
   \<and> retried_through quiet_sleep (wait_exponential 1 1 4 2) fetch_from_cloud (2 - 1) [10, 85, 30, 99]
   \<and> fst (attempt quiet_sleep (wait_exponential 1 1 4 2) fetch_from_cloud 2 [10, 85, 30, 99])
       = Inr ''CLOUD_DATA_PACKET_V1''
   \<and> vortex_task 5 1 4 (recorded quiet_sleep) (counted fetch_from_cloud) (fresh [10, 85, 30, 99]) =
         (Inr ''CLOUD_DATA_PACKET_V1'',
          \<lparr>inner = [30, 99], calls = 2, fb_calls = 0, delays = [1]\<rparr>)
   \<and> vortex_task 5 1 4 quiet_sleep fetch_from_cloud [10, 85, 30, 99] =
         (Inr ''CLOUD_DATA_PACKET_V1'', [30, 99])"
proof -
  have h3: "retried_through quiet_sleep (wait_exponential 1 1 4 2) fetch_from_cloud (2 - 1) [10, 85, 30, 99]"
    by (simp add: numeral_2_eq_2 attempt_def backoff_def quiet_sleep_def connection_reset_def)
  have h4: "attempt quiet_sleep (wait_exponential 1 1 4 2) fetch_from_cloud 2 [10, 85, 30, 99]
       = (Inr ''CLOUD_DATA_PACKET_V1'', [30, 99])"
    by (simp add: numeral_2_eq_2 attempt_def quiet_sleep_def connection_reset_def)
  have w: "map (wait_exponential 1 1 4 2) [1..int 2 - 1] = [1]"
    by (simp add: upto_rec1 wait_exponential_def)
  show ?thesis
    using retry_returns_first_success [of 2 5 quiet_sleep 1 4 fetch_from_cloud "[10, 85, 30, 99]"
        "''CLOUD_DATA_PACKET_V1''"] h3 h4 w
    by simp
qed

subsection \<open>The backoff delays\<close>

text \<open>
  The delay the specification gives for the wait after attempt \<open>i\<close> is
  \<open>min max_delay (min_delay * 2 ^ (i - 1))\<close>. The code passes \<^verbatim>\<open>multiplier=1\<close> and
  \<^verbatim>\<open>min=min_wait\<close>: the exponential starts at one second whatever \<^verbatim>\<open>min_wait\<close> is, and
  \<^verbatim>\<open>min_wait\<close> is only a floor. With three attempts, \<^verbatim>\<open>min_wait=3\<close> and \<^verbatim>\<open>max_wait=10\<close>, an
  operation that always fails is retried after 3 and 3 seconds, where the specification
  says 3 and 6.
\<close>

theorem spec_delay_counterexample:
  "delays (snd (vortex_task 3 3 10 (recorded quiet_sleep) (counted fetch_from_cloud) (fresh [10, 20, 30])))
     = [3, 3]
   \<and> map (spec_delay 3 10) [1, 2] = [3, 6]"
  by (simp add: vortex_task_def AsyncRetrying_call.simps counted_def recorded_def fresh_def
        quiet_sleep_def connection_reset_def stop_after_attempt_def wait_exponential_def
        spec_delay_def)

text \<open>
  C3, as the code has it. Let \<^verbatim>\<open>min_wait\<close> and \<^verbatim>\<open>max_wait\<close> be integers of magnitude at most
  \<open>2 ^ 53\<close>, so that the floats the package keeps of them are the integers themselves. In
  every run whose waits all return (whatever the operation does and whatever \<^verbatim>\<open>retries\<close>
  is), the delay slept after the failed attempt \<open>i\<close> is
  \<open>max (max 0 min_wait) (min (2 ^ (i - 1)) max_wait)\<close>: one second doubled with each attempt,
  capped at \<^verbatim>\<open>max_wait\<close>, then raised to \<^verbatim>\<open>min_wait\<close>. There is one delay after each attempt
  but the last, and at most \<open>max 1 retries\<close> attempts. The delays never decrease, and when
  \<open>0 \<le> min_wait \<le> max_wait\<close> each of them lies between \<^verbatim>\<open>min_wait\<close> and \<^verbatim>\<open>max_wait\<close>.
\<close>

theorem backoff_delays:
  assumes "\<forall>d s. fst (sleep d s) = Inr ()"
    and "\<bar>mn\<bar> \<le> 2 ^ 53" and "\<bar>mx\<bar> \<le> 2 ^ 53"
    and "vortex_task N mn mx (recorded sleep) (counted fn) (fresh s) = (r, w')"
  shows "delays w' = map (\<lambda>i. max (max 0 mn) (min (2 ^ nat (i - 1)) mx)) [1..int (calls w') - 1]
       \<and> int (calls w') \<le> max 1 N
       \<and> sorted (delays w')
       \<and> (0 \<le> mn \<and> mn \<le> mx \<longrightarrow> (\<forall>d \<in> set (delays w'). mn \<le> d \<and> d \<le> mx))"
proof -
  let ?wait = "wait_exponential 1 mn mx 2"
  have run: "AsyncRetrying_call (recorded sleep) N ?wait (counted fn) 1 (fresh s) = (r, w')"
    using assms(4) by (simp add: vortex_task_def)
  from run_counts [OF assms(1) run]
  have c: "0 < calls w'" and b: "int (calls w') \<le> max 1 N"
    and d: "delays w' = map ?wait [1..int (calls w') - 1]"
    by (simp_all add: fresh_def)
  have f: "?wait = (\<lambda>i. max (max 0 mn) (min (2 ^ nat (i - 1)) mx))"
    by (rule ext) (rule wait_exponential_exact [OF assms(2,3)])
  have 1: "delays w' = map (\<lambda>i. max (max 0 mn) (min (2 ^ nat (i - 1)) mx)) [1..int (calls w') - 1]"
    using d f by simp
  have 3: "sorted (delays w')"
    unfolding d by (rule sorted_waits)
  have 4: "\<forall>d \<in> set (delays w'). mn \<le> d \<and> d \<le> mx" if "0 \<le> mn" and "mn \<le> mx"
    unfolding d using wait_exponential_bounds [OF assms(2,3) that] by auto
  show ?thesis using 1 b 3 4 by blast
qed

theorem backoff_delays_witness:
  "(\<forall>d s. fst (quiet_sleep d (s :: nat list)) = Inr ())
   \<and> \<bar>3 :: int\<bar> \<le> 2 ^ 53 \<and> \<bar>10 :: int\<bar> \<le> 2 ^ 53
   \<and> vortex_task 3 3 10 (recorded quiet_sleep) (counted fetch_from_cloud) (fresh [10, 20, 30])
       = (Inl (Exception ''ConnectionError'' ''Connection Reset by Peer''),
          \<lparr>inner = [], calls = 3, fb_calls = 0, delays = [3, 3]\<rparr>)
   \<and> [3, 3] = map (\<lambda>i. max (max 0 3) (min (2 ^ nat (i - 1)) (10::int))) [1..int 3 - 1]
   \<and> int 3 \<le> max 1 3
   \<and> sorted [3, 3 :: int]
   \<and> (0::int) \<le> 3 \<and> (3::int) \<le> 10 \<and> set [3, 3 :: int] \<subseteq> {3..10}"
proof -
  have q: "\<forall>d s. fst (quiet_sleep d (s :: nat list)) = Inr ()"
    by (simp add: quiet_sleep_def)
  have b1: "\<bar>3 :: int\<bar> \<le> 2 ^ 53" and b2: "\<bar>10 :: int\<bar> \<le> 2 ^ 53"
    by simp_all
  have run: "vortex_task 3 3 10 (recorded quiet_sleep) (counted fetch_from_cloud) (fresh [10, 20, 30])
       = (Inl (Exception ''ConnectionError'' ''Connection Reset by Peer''),
          \<lparr>inner = [], calls = 3, fb_calls = 0, delays = [3, 3]\<rparr>)"
    by (simp add: vortex_task_def AsyncRetrying_call.simps counted_def recorded_def fresh_def
        quiet_sleep_def connection_reset_def stop_after_attempt_def wait_exponential_def)
  show ?thesis
    using backoff_delays [OF q b1 b2 run] q run by auto
qed

subsection \<open>Configurations the specification calls invalid\<close>

text \<open>
  The source defines no \<^verbatim>\<open>ConfigurationError\<close>, and raises none in the two cases the claim
  names. With \<^verbatim>\<open>retries=0\<close> the operation is invoked all the same, once, and its own
  \<^verbatim>\<open>ConnectionError\<close> is what the caller gets. With a string for \<^verbatim>\<open>primary\<close> the call
  \<^verbatim>\<open>primary()\<close> raises \<^verbatim>\<open>TypeError\<close> inside the \<^verbatim>\<open>try\<close>, the flow takes it for a failure of
  the primary, invokes the fallback and returns its result: the caller sees no error.
\<close>

theorem configuration_error_counterexample:
  "vortex_task 0 1 4 (recorded quiet_sleep) (counted fetch_from_cloud) (fresh [12, 95])
     = (Inl (Exception ''ConnectionError'' ''Connection Reset by Peer''),
        \<lparr>inner = [95], calls = 1, fb_calls = 0, delays = []\<rparr>)
   \<and> vortex_flow (map_callable counted (Other ''str'' True))
        (map_callable counted_fb (Callable True load_local_backup)) (fresh [12, 95 :: nat])
     = (Inr ''LOCAL_DATA_PACKET_BACKUP'',
        \<lparr>inner = [12, 95], calls = 0, fb_calls = 1, delays = []\<rparr>)"
  by (simp add: vortex_task_def AsyncRetrying_call.simps counted_def counted_fb_def recorded_def
        fresh_def connection_reset_def stop_after_attempt_def vortex_flow_def not_callable_def
        load_local_backup_def)

text \<open>
  C8, as the code has it, in the two cases the claim names.
  \<^item> With \<^verbatim>\<open>retries < 1\<close> (and \<^verbatim>\<open>min_wait\<close>, \<^verbatim>\<open>max_wait\<close> integers of magnitude at most
    \<open>2 ^ 53\<close>) the wrapped operation is invoked exactly once and its outcome, result or
    exception, is the outcome of the call, with no wait.
  \<^item> With a \<^verbatim>\<open>primary\<close> that is not callable, calling it raises \<^verbatim>\<open>TypeError\<close>, which counts
    as a failure of the primary: a fallback that is true is invoked, and what it returns is
    returned, and what it raises is raised when its string form can be computed; with no
    such fallback the \<^verbatim>\<open>TypeError\<close> is raised to the caller.
\<close>

theorem invalid_configuration_runs:
  assumes "retries < 1" and "\<bar>mn\<bar> \<le> 2 ^ 53" and "\<bar>mx\<bar> \<le> 2 ^ 53"
    and "\<not> callable primary"
  shows "vortex_task retries mn mx (recorded sleep) (counted fn) (fresh s)
           = (fst (fn s), \<lparr>inner = snd (fn s), calls = 1, fb_calls = 0, delays = []\<rparr>)
       \<and> (\<exists>tn. await_call primary t = (Inl (not_callable tn), t))
       \<and> (truthy fallback \<and> await_call fallback t = (Inr r, t2) \<longrightarrow>
            vortex_flow primary fallback t = (Inr r, t2))
       \<and> (truthy fallback \<and> await_call fallback t = (Inl fb_e, t2) \<and> py_str fb_e = Inr fb_text \<longrightarrow>
            vortex_flow primary fallback t = (Inl fb_e, t2))
       \<and> (\<not> truthy fallback \<longrightarrow> vortex_flow primary fallback t = await_call primary t)"
proof -
  have 1: "vortex_task retries mn mx (recorded sleep) (counted fn) (fresh s)
           = (fst (fn s), \<lparr>inner = snd (fn s), calls = 1, fb_calls = 0, delays = []\<rparr>)"
    using assms(1) retry_last [of fn "fresh s" retries 1 sleep "wait_exponential 1 mn mx 2"]
    by (simp add: vortex_task_def fresh_def)
  obtain tn where 2: "await_call primary t = (Inl (not_callable tn), t)"
    using assms(4) by (cases primary) simp_all
  have 3: "vortex_flow primary fallback t = (Inr r, t2)"
    if "truthy fallback" and "await_call fallback t = (Inr r, t2)"
    using 2 that by (simp add: vortex_flow_def not_callable_def)
  have 4: "vortex_flow primary fallback t = (Inl fb_e, t2)"
    if "truthy fallback" and "await_call fallback t = (Inl fb_e, t2)" and "py_str fb_e = Inr fb_text"
    using 2 that by (simp add: vortex_flow_def not_callable_def)
  have 5: "vortex_flow primary fallback t = await_call primary t" if "\<not> truthy fallback"
    using 2 that by (simp add: vortex_flow_def not_callable_def)
  show ?thesis using 1 2 3 4 5 by blast
qed

theorem invalid_configuration_runs_witness:
  "(0::int) < 1 \<and> \<bar>1 :: int\<bar> \<le> 2 ^ 53 \<and> \<bar>4 :: int\<bar> \<le> 2 ^ 53
   \<and> \<not> callable (Other ''str'' True :: (nat list, string) py_object)
   \<and> vortex_task 0 1 4 (recorded quiet_sleep) (counted fetch_from_cloud) (fresh [12, 95])
       = (Inl (Exception ''ConnectionError'' ''Connection Reset by Peer''),
          \<lparr>inner = [95], calls = 1, fb_calls = 0, delays = []\<rparr>)
   \<and> await_call (Other ''str'' True :: (nat list, string) py_object) [12, 95]
       = (Inl (not_callable ''str''), [12, 95])
   \<and> truthy (Callable True load_local_backup :: (nat list, string) py_object)
   \<and> await_call (Callable True load_local_backup) [12, 95 :: nat] = (Inr ''LOCAL_DATA_PACKET_BACKUP'', [12, 95])
   \<and> vortex_flow (Other ''str'' True) (Callable True load_local_backup) [12, 95 :: nat]
       = (Inr ''LOCAL_DATA_PACKET_BACKUP'', [12, 95])
   \<and> truthy (Callable True broken_backup :: (nat list, string) py_object)
   \<and> await_call (Callable True broken_backup) [12, 95 :: nat] = (Inl (Exception ''OSError'' ''disk not mounted''), [12, 95])
   \<and> py_str (Exception ''OSError'' ''disk not mounted'') = Inr ''disk not mounted''
   \<and> vortex_flow (Other ''str'' True) (Callable True broken_backup) [12, 95 :: nat]
       = (Inl (Exception ''OSError'' ''disk not mounted''), [12, 95])
   \<and> \<not> truthy (PyNone :: (nat list, string) py_object)
   \<and> vortex_flow (Other ''str'' True) (PyNone :: (nat list, string) py_object) [12, 95]
       = (Inl (not_callable ''str''), [12, 95])"
  using invalid_configuration_runs [of 0 1 4 "Other ''str'' True" quiet_sleep fetch_from_cloud "[12, 95]"
      "[12, 95] :: nat list" "Callable True load_local_backup" "''LOCAL_DATA_PACKET_BACKUP''" "[12, 95]"
      "Exception ''OSError'' ''disk not mounted''" "''disk not mounted''"]
    invalid_configuration_runs [of 0 1 4 "Other ''str'' True" quiet_sleep fetch_from_cloud "[12, 95]"
      "[12, 95] :: nat list" "Callable True broken_backup" "''LOCAL_DATA_PACKET_BACKUP''" "[12, 95]"
      "Exception ''OSError'' ''disk not mounted''" "''disk not mounted''"]
    invalid_configuration_runs [of 0 1 4 "Other ''str'' True" quiet_sleep fetch_from_cloud "[12, 95]"
      "[12, 95] :: nat list" "PyNone" "''LOCAL_DATA_PACKET_BACKUP''" "[12, 95]"
      "Exception ''OSError'' ''disk not mounted''" "''disk not mounted''"]
  by (simp add: connection_reset_def load_local_backup_def broken_backup_def disk_failure_def)

section \<open>Cancellation\<close>

text \<open>
  The event loop cancels a task by raising \<^verbatim>\<open>CancelledError\<close> at the \<^verbatim>\<open>await\<close> where the
  task is suspended: in the operation that is in flight, or in \<^verbatim>\<open>asyncio.sleep\<close> during a
  backoff wait. In the model this is the outcome \<open>Inl (BaseException k m)\<close> of that
  operation, or of that wait; the lemma and the theorem hold for every exception outside
  \<^verbatim>\<open>Exception\<close>, \<^verbatim>\<open>CancelledError\<close> among them.
\<close>

lemma vortex_flow_BaseException:
  assumes "await_call primary s = (Inl (BaseException k m), s1)"
  shows "vortex_flow primary fallback s = (Inl (BaseException k m), s1)"
  using assms by (simp add: vortex_flow_def)

text \<open>
  C9. Cancellation takes precedence over retry and fallback.
  \<^item> A primary whose \<^verbatim>\<open>await\<close> raises the cancellation has it raised by \<^verbatim>\<open>vortex_flow\<close>, and
    the call counter of the fallback stays at zero.
  \<^item> For a primary wrapped by \<^verbatim>\<open>vortex_task\<close>, let the attempts 1 to \<open>K - 1\<close> have failed
    and been retried, and let the cancellation arrive either while attempt \<open>K\<close> is in
    flight (the attempt raises it) or during the wait after a failed attempt \<open>K\<close> (the
    sleep raises it). Then \<^verbatim>\<open>vortex_flow\<close> raises the cancellation, the operation has been
    invoked \<open>K\<close> times and no more, and the call counter of the fallback stays at zero.
\<close>

theorem cancellation_wins:
  assumes "await_call primary t = (Inl (BaseException k' m'), t1)"
    and "1 \<le> K" and "int K \<le> N \<or> K = 1"
    and "retried_through sleep (wait_exponential 1 mn mx 2) fn (K - 1) s"
    and "fst (attempt sleep (wait_exponential 1 mn mx 2) fn K s) = Inl (BaseException k m)
         \<or> (failed (fst (attempt sleep (wait_exponential 1 mn mx 2) fn K s)) \<and> int K < N
            \<and> fst (backoff sleep (wait_exponential 1 mn mx 2) fn K s) = Inl (BaseException k m))"
  shows "fst (vortex_flow (map_callable counted primary) (map_callable counted_fb fallback') (fresh t))
           = Inl (BaseException k' m')
       \<and> fb_calls (snd (vortex_flow (map_callable counted primary) (map_callable counted_fb fallback') (fresh t))) = 0
       \<and> fst (vortex_flow (Callable True (vortex_task N mn mx (recorded sleep) (counted fn)))
                (map_callable counted_fb fallback) (fresh s))
           = Inl (BaseException k m)
       \<and> calls (snd (vortex_flow (Callable True (vortex_task N mn mx (recorded sleep) (counted fn)))
                (map_callable counted_fb fallback) (fresh s))) = K
       \<and> fb_calls (snd (vortex_flow (Callable True (vortex_task N mn mx (recorded sleep) (counted fn)))
                (map_callable counted_fb fallback) (fresh s))) = 0"
proof -
  let ?wait = "wait_exponential 1 mn mx 2"
  obtain c where "await_call (map_callable counted primary) (fresh t)
      = (Inl (BaseException k' m'), \<lparr>inner = t1, calls = c, fb_calls = 0, delays = []\<rparr>)"
    using assms(1) by (simp add: await_call_counted fresh_def)
  then have plain: "vortex_flow (map_callable counted primary) (map_callable counted_fb fallback') (fresh t)
      = (Inl (BaseException k' m'), \<lparr>inner = t1, calls = c, fb_calls = 0, delays = []\<rparr>)"
    by (rule vortex_flow_BaseException)
  obtain i d where "vortex_task N mn mx (recorded sleep) (counted fn) (fresh s)
      = (Inl (BaseException k m), \<lparr>inner = i, calls = K, fb_calls = 0, delays = d\<rparr>)"
    using assms(5)
  proof
    assume a: "fst (attempt sleep ?wait fn K s) = Inl (BaseException k m)"
    then have "\<not> failed (fst (attempt sleep ?wait fn K s)) \<or> N \<le> int K" by simp
    from run_until_last [OF assms(4) assms(2) assms(3) this] a that
    show ?thesis by (simp add: vortex_task_def)
  next
    assume a: "failed (fst (attempt sleep ?wait fn K s)) \<and> int K < N
            \<and> fst (backoff sleep ?wait fn K s) = Inl (BaseException k m)"
    from run_until_wait_raises [OF assms(4) assms(2), of N "BaseException k m"] a that
    show ?thesis by (simp add: vortex_task_def)
  qed
  then have "await_call (Callable True (vortex_task N mn mx (recorded sleep) (counted fn))) (fresh s)
      = (Inl (BaseException k m), \<lparr>inner = i, calls = K, fb_calls = 0, delays = d\<rparr>)"
    by simp
  then have wrapped: "vortex_flow (Callable True (vortex_task N mn mx (recorded sleep) (counted fn)))
                (map_callable counted_fb fallback) (fresh s)
      = (Inl (BaseException k m), \<lparr>inner = i, calls = K, fb_calls = 0, delays = d\<rparr>)"
    by (rule vortex_flow_BaseException)
  show ?thesis using plain wrapped by simp
qed

text \<open>
  Two runs with three attempts allowed and a fallback at hand. In the first the script
  of the operation is: connection reset, cancelled, success. In the second the draws are
  10, 20 and 85 (the third attempt would succeed) and the task is cancelled during the
  second wait. Both raise \<^verbatim>\<open>CancelledError\<close> after two invocations.
\<close>

theorem cancellation_wins_witness:
  "await_call (Callable True replay) [Inl cancelled_error, Inr ''CLOUD_DATA_PACKET_V1'']
      = (Inl (BaseException ''CancelledError'' []), [Inr ''CLOUD_DATA_PACKET_V1''])
   \<and> (1::nat) \<le> 2 \<and> int 2 \<le> 3
   \<and> retried_through quiet_sleep (wait_exponential 1 1 4 2) replay (2 - 1)
        [Inl connection_reset, Inl cancelled_error, Inr ''CLOUD_DATA_PACKET_V1'']
   \<and> fst (attempt quiet_sleep (wait_exponential 1 1 4 2) replay 2
        [Inl connection_reset, Inl cancelled_error, Inr ''CLOUD_DATA_PACKET_V1''])
       = Inl (BaseException ''CancelledError'' [])
   \<and> fst (vortex_flow (map_callable counted (Callable True replay))
        (map_callable counted_fb (Callable True load_local_backup))
        (fresh [Inl cancelled_error, Inr ''CLOUD_DATA_PACKET_V1'']))
       = Inl (BaseException ''CancelledError'' [])
   \<and> fb_calls (snd (vortex_flow (map_callable counted (Callable True replay))
        (map_callable counted_fb (Callable True load_local_backup))
        (fresh [Inl cancelled_error, Inr ''CLOUD_DATA_PACKET_V1'']))) = 0
   \<and> vortex_flow (Callable True (vortex_task 3 1 4 (recorded quiet_sleep) (counted replay)))
        (map_callable counted_fb (Callable True load_local_backup))
        (fresh [Inl connection_reset, Inl cancelled_error, Inr ''CLOUD_DATA_PACKET_V1''])
       = (Inl (BaseException ''CancelledError'' []),
          \<lparr>inner = [Inr ''CLOUD_DATA_PACKET_V1''], calls = 2, fb_calls = 0, delays = [1]\<rparr>)
   \<and> retried_through impatient_sleep (wait_exponential 1 1 4 2) fetch_from_cloud (2 - 1) [10, 20, 85]
   \<and> failed (fst (attempt impatient_sleep (wait_exponential 1 1 4 2) fetch_from_cloud 2 [10, 20, 85]))
   \<and> fst (backoff impatient_sleep (wait_exponential 1 1 4 2) fetch_from_cloud 2 [10, 20, 85])
       = Inl (BaseException ''CancelledError'' [])
   \<and> vortex_flow (Callable True (vortex_task 3 1 4 (recorded impatient_sleep) (counted fetch_from_cloud)))
        (map_callable counted_fb (Callable True load_local_backup)) (fresh [10, 20, 85])
       = (Inl (BaseException ''CancelledError'' []),
          \<lparr>inner = [85], calls = 2, fb_calls = 0, delays = [1, 2]\<rparr>)"
proof -
  let ?script = "[Inl connection_reset, Inl cancelled_error, Inr ''CLOUD_DATA_PACKET_V1''] :: (py_exception + string) list"
  let ?wait = "wait_exponential 1 1 4 2"
  have p: "await_call (Callable True replay) [Inl cancelled_error, Inr ''CLOUD_DATA_PACKET_V1'']
      = (Inl (BaseException ''CancelledError'' []), [Inr ''CLOUD_DATA_PACKET_V1''])"
    by (simp add: cancelled_error_def)
  have r1: "retried_through quiet_sleep ?wait replay (2 - 1) ?script"
    by (simp add: numeral_2_eq_2 attempt_def backoff_def quiet_sleep_def connection_reset_def)
  have a1: "fst (attempt quiet_sleep ?wait replay 2 ?script) = Inl (BaseException ''CancelledError'' [])"
    by (simp add: numeral_2_eq_2 attempt_def quiet_sleep_def cancelled_error_def)
  have r2: "retried_through impatient_sleep ?wait fetch_from_cloud (2 - 1) [10, 20, 85]"
    by (simp add: numeral_2_eq_2 attempt_def backoff_def impatient_sleep_def connection_reset_def
          wait_exponential_def)
  have a2: "failed (fst (attempt impatient_sleep ?wait fetch_from_cloud 2 [10, 20, 85]))"
    by (simp add: numeral_2_eq_2 attempt_def impatient_sleep_def connection_reset_def
          wait_exponential_def)
  have b2: "fst (backoff impatient_sleep ?wait fetch_from_cloud 2 [10, 20, 85])
       = Inl (BaseException ''CancelledError'' [])"
    by (simp add: numeral_2_eq_2 attempt_def backoff_def impatient_sleep_def connection_reset_def
          wait_exponential_def cancelled_error_def)
  have e1: "vortex_flow (Callable True (vortex_task 3 1 4 (recorded quiet_sleep) (counted replay)))
        (map_callable counted_fb (Callable True load_local_backup)) (fresh ?script)
       = (Inl (BaseException ''CancelledError'' []),
          \<lparr>inner = [Inr ''CLOUD_DATA_PACKET_V1''], calls = 2, fb_calls = 0, delays = [1]\<rparr>)"
    by (simp add: vortex_flow_def vortex_task_def AsyncRetrying_call.simps counted_def recorded_def
          fresh_def quiet_sleep_def connection_reset_def cancelled_error_def stop_after_attempt_def
          wait_exponential_def)
  have e2: "vortex_flow (Callable True (vortex_task 3 1 4 (recorded impatient_sleep) (counted fetch_from_cloud)))
        (map_callable counted_fb (Callable True load_local_backup)) (fresh [10, 20, 85])
       = (Inl (BaseException ''CancelledError'' []),
          \<lparr>inner = [85], calls = 2, fb_calls = 0, delays = [1, 2]\<rparr>)"
    by (simp add: vortex_flow_def vortex_task_def AsyncRetrying_call.simps counted_def recorded_def
          fresh_def impatient_sleep_def connection_reset_def cancelled_error_def stop_after_attempt_def
          wait_exponential_def)
  show ?thesis
    using cancellation_wins [of "Callable True replay" "[Inl cancelled_error, Inr ''CLOUD_DATA_PACKET_V1'']"
        "''CancelledError''" "[]" "[Inr ''CLOUD_DATA_PACKET_V1'']" 2 3 quiet_sleep 1 4 replay ?script
        "''CancelledError''" "[]" "Callable True load_local_backup" "Callable True load_local_backup"]
      cancellation_wins [of "Callable True replay" "[Inl cancelled_error, Inr ''CLOUD_DATA_PACKET_V1'']"
        "''CancelledError''" "[]" "[Inr ''CLOUD_DATA_PACKET_V1'']" 2 3 impatient_sleep 1 4 fetch_from_cloud
        "[10, 20, 85]" "''CancelledError''" "[]" "Callable True load_local_backup" "Callable True load_local_backup"]
      p r1 a1 r2 a2 b2 e1 e2
    by simp
qed

section \<open>Retry and fallback together\<close>

text \<open>
  The scenario of the specification, section 8, in general: a primary wrapped by
  \<^verbatim>\<open>vortex_task\<close> with \<open>N \<ge> 1\<close> attempts fails on all of them, and the fallback is true and
  returns \<open>r\<close>. Then the flow returns \<open>r\<close>, the primary has been invoked \<open>N\<close> times and
  the fallback once.
\<close>

theorem retry_then_fallback:
  assumes "1 \<le> N"
    and "retried_through sleep (wait_exponential 1 mn mx 2) fn (nat N - 1) s"
    and "fst (attempt sleep (wait_exponential 1 mn mx 2) fn (nat N) s) = Inl (Exception k m)"
    and "truthy fallback"
    and "await_call fallback (snd (attempt sleep (wait_exponential 1 mn mx 2) fn (nat N) s)) = (Inr r, s2)"
  shows "vortex_flow (Callable True (vortex_task N mn mx (recorded sleep) (counted fn)))
           (map_callable counted_fb fallback) (fresh s) =
         (Inr r, \<lparr>inner = s2, calls = nat N, fb_calls = 1,
                 delays = map (wait_exponential 1 mn mx 2) [1..N - 1]\<rparr>)"
proof -
  let ?wait = "wait_exponential 1 mn mx 2"
  let ?w = "\<lparr>inner = snd (attempt sleep ?wait fn (nat N) s), calls = nat N, fb_calls = 0,
             delays = map ?wait [1..N - 1]\<rparr>"
  have "AsyncRetrying_call (recorded sleep) N ?wait (counted fn) 1 (fresh s) = (Inl (Exception k m), ?w)"
    using assms(1,2,3) run_until_last [of sleep ?wait fn "nat N" s N] by simp
  then have p: "await_call (Callable True (vortex_task N mn mx (recorded sleep) (counted fn))) (fresh s)
      = (Inl (Exception k m), ?w)"
    by (simp add: vortex_task_def)
  from assms(5) obtain b f where fb: "fallback = Callable b f"
    by (cases fallback) simp_all
  have f: "await_call (map_callable counted_fb fallback) ?w
      = (Inr r, \<lparr>inner = s2, calls = nat N, fb_calls = 1, delays = map ?wait [1..N - 1]\<rparr>)"
    using assms(5) by (simp add: fb counted_fb_def)
  show ?thesis
    using p f assms(4) by (simp add: vortex_flow_def)
qed

theorem retry_then_fallback_witness:
  "(1::int) \<le> 3
   \<and> retried_through quiet_sleep (wait_exponential 1 1 4 2) fetch_from_cloud (nat 3 - 1) [10, 20, 30]
   \<and> fst (attempt quiet_sleep (wait_exponential 1 1 4 2) fetch_from_cloud (nat 3) [10, 20, 30])
       = Inl (Exception ''ConnectionError'' ''Connection Reset by Peer'')
   \<and> truthy (Callable True load_local_backup :: (nat list, string) py_object)
   \<and> vortex_flow (Callable True (vortex_task 3 1 4 (recorded quiet_sleep) (counted fetch_from_cloud)))
        (map_callable counted_fb (Callable True load_local_backup)) (fresh [10, 20, 30])
       = (Inr ''LOCAL_DATA_PACKET_BACKUP'',
          \<lparr>inner = [], calls = 3, fb_calls = 1, delays = [1, 2]\<rparr>)"
proof -
  have h2: "retried_through quiet_sleep (wait_exponential 1 1 4 2) fetch_from_cloud (nat 3 - 1) [10, 20, 30]"
    by (simp add: numeral_2_eq_2 numeral_3_eq_3 attempt_def backoff_def quiet_sleep_def connection_reset_def)
  have h3: "attempt quiet_sleep (wait_exponential 1 1 4 2) fetch_from_cloud (nat 3) [10, 20, 30]
       = (Inl (Exception ''ConnectionError'' ''Connection Reset by Peer''), [])"
    by (simp add: numeral_3_eq_3 attempt_def quiet_sleep_def connection_reset_def)
  have w: "map (wait_exponential 1 1 4 2) [1..3 - 1] = [1, 2]"
    by (simp add: upto_rec1 wait_exponential_def)
  show ?thesis
    using retry_then_fallback [of 3 quiet_sleep 1 4 fetch_from_cloud "[10, 20, 30]"
        "''ConnectionError''" "''Connection Reset by Peer''" "Callable True load_local_backup"
        "''LOCAL_DATA_PACKET_BACKUP''" "[]"] h2 h3 w
    by (simp add: load_local_backup_def)
qed

end
